theory Spec2Isabelle
  imports Main
begin

section \<open>Data model of the narrative-ai service\<close>

text \<open>
  The service (\<^verbatim>\<open>apps/narrative-ai/main.py\<close>) is a FastAPI application with four
  route handlers. Request bodies are Pydantic models, responses are either a Pydantic
  model or a Python dict literal. JSON values are modelled by a datatype; a dict
  literal is an association list in the order in which the source writes its keys.
\<close>

datatype json =
    JNull
  | JBool bool
  | JInt int
  | JStr string
  | JList "json list"
  | JDict "(string \<times> json) list"

type_synonym dict = "(string \<times> json) list"

text \<open>
  \<^verbatim>\<open>class GenerateSceneRequest(BaseModel)\<close>: \<^verbatim>\<open>story_id: str\<close>,
  \<^verbatim>\<open>user_context: Dict\<close>, \<^verbatim>\<open>previous_choice: Optional[str] = None\<close>.
  The context is a dict of arbitrary content that no handler inspects, so its type is
  a parameter \<open>'c\<close>.
\<close>

record 'c GenerateSceneRequest =
  story_id :: string
  user_context :: 'c
  previous_choice :: "string option"

text \<open>
  \<^verbatim>\<open>class GenerateChoicesRequest(BaseModel)\<close>: \<^verbatim>\<open>story_id: str\<close>,
  \<^verbatim>\<open>current_scene: str\<close>, \<^verbatim>\<open>user_context: Dict\<close>.
\<close>

record 'c GenerateChoicesRequest =
  story_id :: string
  current_scene :: string
  user_context :: 'c

text \<open>
  \<^verbatim>\<open>class NarrativeResponse(BaseModel)\<close>: \<^verbatim>\<open>text: str\<close>, \<^verbatim>\<open>metadata: Dict\<close>.
\<close>

record NarrativeResponse =
  "text" :: string
  metadata :: dict

text \<open>
  The failure kinds that a handler result can carry. The source imports
  \<^verbatim>\<open>HTTPException\<close> and raises it nowhere; the four kinds are the names under which the
  specification speaks of failures, so that a statement "fails with NotFound" can be
  written down and compared with what a handler returns.
\<close>

datatype error = InvalidInput | NotFound | GenerationFailure | StorageFailure

text \<open>
  A story store as the specification describes the storage backend: story states keyed
  by story identifier. The source holds no such store. Every handler below is
  polymorphic in the system state \<open>'s\<close> it is run in; the store is the instance of
  \<open>'s\<close> at which statements about persistence are made.
\<close>

type_synonym story_store = "(string \<times> dict) list"

section \<open>The route handlers\<close>

text \<open>
  Each handler takes the system state and returns its result together with the system
  state after the call. No handler body contains a \<^verbatim>\<open>raise\<close>, an assignment to
  anything but its own return value, or a call with an effect; so every result is
  \<open>Inr\<close> and the state is returned as it was received.
\<close>

text \<open>
  \<^verbatim>\<open>@app.get("/health")
async def health_check():
    return {"status": "healthy", "service": "narrative-ai"}\<close>
\<close>

definition health_check :: "'s \<Rightarrow> (error + dict) \<times> 's" where
  "health_check s =
     (Inr [(''status'', JStr ''healthy''), (''service'', JStr ''narrative-ai'')], s)"

text \<open>
  \<^verbatim>\<open>@app.post("/api/generate/scene", response_model=NarrativeResponse)
async def generate_scene(request: GenerateSceneRequest):
    return NarrativeResponse(
        text="Scene generation endpoint - implementation pending",
        metadata={"story_id": request.story_id,
                  "model": "gpt-4-turbo-preview",
                  "tokens_used": 0})\<close>
\<close>

definition generate_scene ::
  "'c GenerateSceneRequest \<Rightarrow> 's \<Rightarrow> (error + NarrativeResponse) \<times> 's" where
  "generate_scene request s =
     (Inr \<lparr>text = ''Scene generation endpoint - implementation pending'',
           metadata = [(''story_id'', JStr (GenerateSceneRequest.story_id request)),
                       (''model'', JStr ''gpt-4-turbo-preview''),
                       (''tokens_used'', JInt 0)]\<rparr>, s)"

text \<open>
  \<^verbatim>\<open>@app.post("/api/generate/choices")
async def generate_choices(request: GenerateChoicesRequest):
    return {"choices": [
                {"id": "choice_1", "text": "Choice 1 - implementation pending"},
                {"id": "choice_2", "text": "Choice 2 - implementation pending"},
                {"id": "choice_3", "text": "Choice 3 - implementation pending"}],
            "metadata": {"story_id": request.story_id}}\<close>
\<close>

definition generate_choices ::
  "'c GenerateChoicesRequest \<Rightarrow> 's \<Rightarrow> (error + dict) \<times> 's" where
  "generate_choices request s =
     (Inr [(''choices'', JList
              [JDict [(''id'', JStr ''choice_1''),
                      (''text'', JStr ''Choice 1 - implementation pending'')],
               JDict [(''id'', JStr ''choice_2''),
                      (''text'', JStr ''Choice 2 - implementation pending'')],
               JDict [(''id'', JStr ''choice_3''),
                      (''text'', JStr ''Choice 3 - implementation pending'')]]),
           (''metadata'', JDict [(''story_id'',
              JStr (GenerateChoicesRequest.story_id request))])], s)"

text \<open>
  \<^verbatim>\<open>@app.get("/api/story/{story_id}")
async def get_story_state(story_id: str):
    return {"story_id": story_id,
            "state": {},
            "message": "Story state endpoint - implementation pending"}\<close>
\<close>

definition get_story_state :: "string \<Rightarrow> 's \<Rightarrow> (error + dict) \<times> 's" where
  "get_story_state sid s =
     (Inr [(''story_id'', JStr sid),
           (''state'', JDict []),
           (''message'', JStr ''Story state endpoint - implementation pending'')], s)"

section \<open>Reading a response\<close>

text \<open>
  \<open>choices_of r\<close> is \<^verbatim>\<open>r["choices"]\<close> of a \<^verbatim>\<open>generate_choices\<close> response, the empty
  list when the key is absent or not a list; \<open>choice_id c\<close> is \<^verbatim>\<open>c["id"]\<close> of one
  choice, \<open>None\<close> when the choice is not a dict or has no such key.
\<close>

definition choices_of :: "dict \<Rightarrow> json list" where
  "choices_of r = (case map_of r ''choices'' of Some (JList cs) \<Rightarrow> cs | _ \<Rightarrow> [])"

definition choice_id :: "json \<Rightarrow> json option" where
  "choice_id c = (case c of JDict kv \<Rightarrow> map_of kv ''id'' | _ \<Rightarrow> None)"

section \<open>The application as a whole\<close>

text \<open>
  The four routes registered on \<^verbatim>\<open>app\<close>. A call names a route with its request; \<open>app\<close>
  hands the call to the handler the decorator registered for it.
\<close>

datatype 'c call =
    GetHealth
  | PostGenerateScene "'c GenerateSceneRequest"
  | PostGenerateChoices "'c GenerateChoicesRequest"
  | GetStory string

datatype response = Plain dict | Model NarrativeResponse

definition app :: "'c call \<Rightarrow> 's \<Rightarrow> (error + response) \<times> 's" where
  "app c s =
     (case c of
        GetHealth \<Rightarrow> apfst (map_sum id Plain) (health_check s)
      | PostGenerateScene request \<Rightarrow> apfst (map_sum id Model) (generate_scene request s)
      | PostGenerateChoices request \<Rightarrow> apfst (map_sum id Plain) (generate_choices request s)
      | GetStory sid \<Rightarrow> apfst (map_sum id Plain) (get_story_state sid s))"

text \<open>
  A sequence of calls served one after the other; the state each call leaves is the
  state the next call starts in.
\<close>

fun serve :: "'c call list \<Rightarrow> 's \<Rightarrow> (error + response) list \<times> 's" where
  "serve [] s = ([], s)"
| "serve (c # cs) s =
     (case app c s of (r, s') \<Rightarrow> (case serve cs s' of (rs, s'') \<Rightarrow> (r # rs, s'')))"

section \<open>Auxiliary facts\<close>

lemma app_state: "snd (app c s) = s"
  by (cases c) (simp_all add: app_def health_check_def generate_scene_def
      generate_choices_def get_story_state_def)

lemma app_response: "fst (app c s) = fst (app c t)"
  by (cases c) (simp_all add: app_def health_check_def generate_scene_def
      generate_choices_def get_story_state_def)

lemma serve_state: "snd (serve cs s) = s"
proof (induction cs arbitrary: s)
  case Nil
  show ?case by simp
next
  case (Cons c cs)
  show ?case
    by (simp add: case_prod_beta Cons.IH app_state)
qed

lemma serve_responses: "fst (serve cs s) = map (\<lambda>c. fst (app c t)) cs"
proof (induction cs arbitrary: s)
  case Nil
  show ?case by simp
next
  case (Cons c cs)
  have "fst (app c s) = fst (app c t)"
    by (rule app_response)
  then show ?case
    by (simp add: case_prod_beta Cons.IH)
qed

section \<open>The health route\<close>

text \<open>
  C7. For every call and in every system state, \<^verbatim>\<open>GET /health\<close> returns exactly the
  object \<^verbatim>\<open>{status: "healthy", service: "narrative-ai"}\<close>; the state is left as it was.
\<close>

theorem health_check_constant:
  "health_check s =
     (Inr [(''status'', JStr ''healthy''), (''service'', JStr ''narrative-ai'')], s)"
  by (simp add: health_check_def)

section \<open>Scene generation\<close>

text \<open>
  C8. For every request, the one with an empty \<^verbatim>\<open>story_id\<close> included, \<^verbatim>\<open>generate_scene\<close>
  succeeds and returns the constant text with the metadata
  \<^verbatim>\<open>{story_id: <the request's>, model: "gpt-4-turbo-preview", tokens_used: 0}\<close>.
\<close>

theorem generate_scene_stub:
  "fst (generate_scene request s) =
     Inr \<lparr>text = ''Scene generation endpoint - implementation pending'',
          metadata = [(''story_id'', JStr (GenerateSceneRequest.story_id request)),
                      (''model'', JStr ''gpt-4-turbo-preview''),
                      (''tokens_used'', JInt 0)]\<rparr>
   \<and> fst (generate_scene (request\<lparr>GenerateSceneRequest.story_id := []\<rparr>) s) =
     Inr \<lparr>text = ''Scene generation endpoint - implementation pending'',
          metadata = [(''story_id'', JStr []),
                      (''model'', JStr ''gpt-4-turbo-preview''),
                      (''tokens_used'', JInt 0)]\<rparr>"
  by (simp add: generate_scene_def)

text \<open>
  C6. Every successful \<^verbatim>\<open>generate_scene\<close> result has a non-empty text, and its metadata
  holds a model identifier, a token-usage count and the \<^verbatim>\<open>story_id\<close> of the request.
\<close>

theorem generate_scene_result_contract:
  assumes "fst (generate_scene request s) = Inr r"
  shows "text r \<noteq> []
    \<and> (\<exists>m. map_of (metadata r) ''model'' = Some (JStr m) \<and> m \<noteq> [])
    \<and> (\<exists>n. map_of (metadata r) ''tokens_used'' = Some (JInt n) \<and> 0 \<le> n)
    \<and> map_of (metadata r) ''story_id'' = Some (JStr (GenerateSceneRequest.story_id request))"
  using assms by (auto simp add: generate_scene_def)

theorem generate_scene_result_contract_witness:
  "fst (generate_scene
          \<lparr>GenerateSceneRequest.story_id = ''story-7'',
           user_context = [(''mood'', JStr ''calm'')],
           previous_choice = Some ''choice_2''\<rparr> ([] :: story_store))
     = Inr \<lparr>text = ''Scene generation endpoint - implementation pending'',
            metadata = [(''story_id'', JStr ''story-7''),
                        (''model'', JStr ''gpt-4-turbo-preview''),
                        (''tokens_used'', JInt 0)]\<rparr>
   \<and> ''Scene generation endpoint - implementation pending'' \<noteq> []
   \<and> map_of [(''story_id'', JStr ''story-7''),
              (''model'', JStr ''gpt-4-turbo-preview''),
              (''tokens_used'', JInt 0)] ''story_id'' = Some (JStr ''story-7'')"
proof -
  let ?request = "\<lparr>GenerateSceneRequest.story_id = ''story-7'',
                   user_context = [(''mood'', JStr ''calm'')],
                   previous_choice = Some ''choice_2''\<rparr>"
  let ?r = "\<lparr>text = ''Scene generation endpoint - implementation pending'',
             metadata = [(''story_id'', JStr ''story-7''),
                         (''model'', JStr ''gpt-4-turbo-preview''),
                         (''tokens_used'', JInt 0)]\<rparr>"
  have ok: "fst (generate_scene ?request ([] :: story_store)) = Inr ?r"
    by (simp add: generate_scene_def)
  have "text ?r \<noteq> []
    \<and> map_of (metadata ?r) ''story_id'' = Some (JStr (GenerateSceneRequest.story_id ?request))"
    using generate_scene_result_contract [OF ok] by blast
  with ok show ?thesis
    by simp
qed

text \<open>
  C1, as the specification has it: a call with the empty \<^verbatim>\<open>story_id\<close> fails with
  \<open>InvalidInput\<close>. The handler has no check of its request: at the empty identifier it
  returns the same successful response as everywhere else.
\<close>

theorem generate_scene_empty_story_id_counterexample:
  "fst (generate_scene
          \<lparr>GenerateSceneRequest.story_id = [], user_context = ([] :: dict),
           previous_choice = None\<rparr> ([] :: story_store))
     = Inr \<lparr>text = ''Scene generation endpoint - implementation pending'',
            metadata = [(''story_id'', JStr []),
                        (''model'', JStr ''gpt-4-turbo-preview''),
                        (''tokens_used'', JInt 0)]\<rparr>
   \<and> fst (generate_scene
          \<lparr>GenerateSceneRequest.story_id = [], user_context = ([] :: dict),
           previous_choice = None\<rparr> ([] :: story_store))
     \<noteq> Inl InvalidInput"
  by (simp add: generate_scene_def)

text \<open>
  C1, amended. For every call to \<^verbatim>\<open>generate_scene\<close> whose \<^verbatim>\<open>story_id\<close> is the empty
  string, the operation does not fail with \<open>InvalidInput\<close>: it returns a successful
  response whose metadata carries the empty \<^verbatim>\<open>story_id\<close>. It performs no persistence
  write: the system state after the call is the state before it.
\<close>

theorem generate_scene_empty_story_id:
  assumes "GenerateSceneRequest.story_id request = []"
  shows "(\<exists>r. fst (generate_scene request s) = Inr r
            \<and> map_of (metadata r) ''story_id'' = Some (JStr []))
    \<and> fst (generate_scene request s) \<noteq> Inl InvalidInput
    \<and> snd (generate_scene request s) = s"
  using assms by (simp add: generate_scene_def)

theorem generate_scene_empty_story_id_witness:
  "GenerateSceneRequest.story_id
     \<lparr>GenerateSceneRequest.story_id = [], user_context = [(''mood'', JStr ''calm'')],
      previous_choice = None\<rparr> = []
   \<and> fst (generate_scene
          \<lparr>GenerateSceneRequest.story_id = [], user_context = [(''mood'', JStr ''calm'')],
           previous_choice = None\<rparr> ([(''story-7'', [])] :: story_store))
       \<noteq> Inl InvalidInput
   \<and> snd (generate_scene
          \<lparr>GenerateSceneRequest.story_id = [], user_context = [(''mood'', JStr ''calm'')],
           previous_choice = None\<rparr> ([(''story-7'', [])] :: story_store))
       = [(''story-7'', [])]"
proof -
  let ?request = "\<lparr>GenerateSceneRequest.story_id = [],
                   user_context = [(''mood'', JStr ''calm'')], previous_choice = None\<rparr>"
  have empty: "GenerateSceneRequest.story_id ?request = []"
    by simp
  from generate_scene_empty_story_id [OF empty, of "[(''story-7'', [])] :: story_store"] empty
  show ?thesis
    by blast
qed

text \<open>
  C3, as the specification has it: a successful \<^verbatim>\<open>generate_scene\<close> persists the updated
  story state. Run on the empty store with a non-empty \<^verbatim>\<open>story_id\<close> and a previous
  choice, the call succeeds and the store is still empty afterwards: nothing was
  persisted for the story.
\<close>

theorem generate_scene_persists_counterexample:
  "GenerateSceneRequest.story_id
     \<lparr>GenerateSceneRequest.story_id = ''story-7'', user_context = ([] :: dict),
      previous_choice = Some ''choice_1''\<rparr> \<noteq> []
   \<and> fst (generate_scene
          \<lparr>GenerateSceneRequest.story_id = ''story-7'', user_context = ([] :: dict),
           previous_choice = Some ''choice_1''\<rparr> ([] :: story_store))
     = Inr \<lparr>text = ''Scene generation endpoint - implementation pending'',
            metadata = [(''story_id'', JStr ''story-7''),
                        (''model'', JStr ''gpt-4-turbo-preview''),
                        (''tokens_used'', JInt 0)]\<rparr>
   \<and> map_of (snd (generate_scene
          \<lparr>GenerateSceneRequest.story_id = ''story-7'', user_context = ([] :: dict),
           previous_choice = Some ''choice_1''\<rparr> ([] :: story_store))) ''story-7'' = None"
  by (simp add: generate_scene_def)

text \<open>
  C3, amended. For every non-empty \<^verbatim>\<open>story_id\<close>, a successful \<^verbatim>\<open>generate_scene\<close> call
  performs no mutation and persists nothing: the system state after the call is the
  state before it. An immediately following \<^verbatim>\<open>get_story_state\<close> for the same
  \<^verbatim>\<open>story_id\<close> succeeds with the empty state mapping, the response it gives without
  the call.
\<close>

theorem generate_scene_then_get_story_state:
  assumes "GenerateSceneRequest.story_id request \<noteq> []"
    and "generate_scene request s = (Inr r, s')"
  shows "s' = s
    \<and> fst (get_story_state (GenerateSceneRequest.story_id request) s') =
        Inr [(''story_id'', JStr (GenerateSceneRequest.story_id request)),
             (''state'', JDict []),
             (''message'', JStr ''Story state endpoint - implementation pending'')]
    \<and> fst (get_story_state (GenerateSceneRequest.story_id request) s') =
        fst (get_story_state (GenerateSceneRequest.story_id request) s)"
  using assms by (auto simp add: generate_scene_def get_story_state_def)

theorem generate_scene_then_get_story_state_witness:
  "GenerateSceneRequest.story_id
     \<lparr>GenerateSceneRequest.story_id = ''story-7'', user_context = ([] :: dict),
      previous_choice = Some ''choice_1''\<rparr> \<noteq> []
   \<and> generate_scene
       \<lparr>GenerateSceneRequest.story_id = ''story-7'', user_context = ([] :: dict),
        previous_choice = Some ''choice_1''\<rparr> ([(''story-3'', [])] :: story_store)
     = (Inr \<lparr>text = ''Scene generation endpoint - implementation pending'',
             metadata = [(''story_id'', JStr ''story-7''),
                         (''model'', JStr ''gpt-4-turbo-preview''),
                         (''tokens_used'', JInt 0)]\<rparr>, [(''story-3'', [])])
   \<and> fst (get_story_state ''story-7'' ([(''story-3'', [])] :: story_store)) =
        Inr [(''story_id'', JStr ''story-7''),
             (''state'', JDict []),
             (''message'', JStr ''Story state endpoint - implementation pending'')]"
proof -
  let ?request = "\<lparr>GenerateSceneRequest.story_id = ''story-7'',
                   user_context = ([] :: dict), previous_choice = Some ''choice_1''\<rparr>"
  let ?r = "\<lparr>text = ''Scene generation endpoint - implementation pending'',
             metadata = [(''story_id'', JStr ''story-7''),
                         (''model'', JStr ''gpt-4-turbo-preview''),
                         (''tokens_used'', JInt 0)]\<rparr>"
  let ?s = "[(''story-3'', [])] :: story_store"
  have nonempty: "GenerateSceneRequest.story_id ?request \<noteq> []"
    by simp
  have run: "generate_scene ?request ?s = (Inr ?r, ?s)"
    by (simp add: generate_scene_def)
  have "fst (get_story_state (GenerateSceneRequest.story_id ?request) ?s) =
        Inr [(''story_id'', JStr (GenerateSceneRequest.story_id ?request)),
             (''state'', JDict []),
             (''message'', JStr ''Story state endpoint - implementation pending'')]"
    using generate_scene_then_get_story_state [OF nonempty run] by blast
  with nonempty run show ?thesis
    by simp
qed

section \<open>Choice generation\<close>

text \<open>
  C4. A successful \<^verbatim>\<open>generate_choices\<close> result never carries an empty choice list.
  The handler has no failing branch, so a result with no choice, which would have to be
  a \<open>GenerationFailure\<close>, does not occur.
\<close>

theorem generate_choices_nonempty:
  assumes "fst (generate_choices request s) = Inr r"
  shows "choices_of r \<noteq> []"
  using assms by (auto simp add: generate_choices_def choices_of_def)

theorem generate_choices_nonempty_witness:
  "fst (generate_choices
          \<lparr>GenerateChoicesRequest.story_id = ''story-7'', current_scene = ''scene-1'',
           user_context = ([] :: dict)\<rparr> ([] :: story_store))
     = Inr [(''choices'', JList
               [JDict [(''id'', JStr ''choice_1''),
                       (''text'', JStr ''Choice 1 - implementation pending'')],
                JDict [(''id'', JStr ''choice_2''),
                       (''text'', JStr ''Choice 2 - implementation pending'')],
                JDict [(''id'', JStr ''choice_3''),
                       (''text'', JStr ''Choice 3 - implementation pending'')]]),
            (''metadata'', JDict [(''story_id'', JStr ''story-7'')])]
   \<and> choices_of
        [(''choices'', JList
            [JDict [(''id'', JStr ''choice_1''),
                    (''text'', JStr ''Choice 1 - implementation pending'')],
             JDict [(''id'', JStr ''choice_2''),
                    (''text'', JStr ''Choice 2 - implementation pending'')],
             JDict [(''id'', JStr ''choice_3''),
                    (''text'', JStr ''Choice 3 - implementation pending'')]]),
         (''metadata'', JDict [(''story_id'', JStr ''story-7'')])] \<noteq> []"
proof -
  let ?request = "\<lparr>GenerateChoicesRequest.story_id = ''story-7'',
                   current_scene = ''scene-1'', user_context = ([] :: dict)\<rparr>"
  let ?r = "[(''choices'', JList
               [JDict [(''id'', JStr ''choice_1''),
                       (''text'', JStr ''Choice 1 - implementation pending'')],
                JDict [(''id'', JStr ''choice_2''),
                       (''text'', JStr ''Choice 2 - implementation pending'')],
                JDict [(''id'', JStr ''choice_3''),
                       (''text'', JStr ''Choice 3 - implementation pending'')]]),
             (''metadata'', JDict [(''story_id'', JStr ''story-7'')])]"
  have ok: "fst (generate_choices ?request ([] :: story_store)) = Inr ?r"
    by (simp add: generate_choices_def)
  from ok generate_choices_nonempty [OF ok] show ?thesis
    by (rule conjI)
qed

text \<open>
  C5. In every successful \<^verbatim>\<open>generate_choices\<close> response each choice has an identifier,
  and the identifiers of the response are pairwise distinct.
\<close>

theorem generate_choices_ids_distinct:
  assumes "fst (generate_choices request s) = Inr r"
  shows "distinct (map choice_id (choices_of r)) \<and> None \<notin> set (map choice_id (choices_of r))"
  using assms by (auto simp add: generate_choices_def choices_of_def choice_id_def)

theorem generate_choices_ids_distinct_witness:
  "fst (generate_choices
          \<lparr>GenerateChoicesRequest.story_id = ''story-9'', current_scene = ''scene-4'',
           user_context = [(''mood'', JStr ''calm'')]\<rparr> ([(''story-9'', [])] :: story_store))
     = Inr [(''choices'', JList
               [JDict [(''id'', JStr ''choice_1''),
                       (''text'', JStr ''Choice 1 - implementation pending'')],
                JDict [(''id'', JStr ''choice_2''),
                       (''text'', JStr ''Choice 2 - implementation pending'')],
                JDict [(''id'', JStr ''choice_3''),
                       (''text'', JStr ''Choice 3 - implementation pending'')]]),
            (''metadata'', JDict [(''story_id'', JStr ''story-9'')])]
   \<and> distinct [Some (JStr ''choice_1''), Some (JStr ''choice_2''), Some (JStr ''choice_3'')]"
proof -
  let ?request = "\<lparr>GenerateChoicesRequest.story_id = ''story-9'',
                   current_scene = ''scene-4'', user_context = [(''mood'', JStr ''calm'')]\<rparr>"
  let ?r = "[(''choices'', JList
               [JDict [(''id'', JStr ''choice_1''),
                       (''text'', JStr ''Choice 1 - implementation pending'')],
                JDict [(''id'', JStr ''choice_2''),
                       (''text'', JStr ''Choice 2 - implementation pending'')],
                JDict [(''id'', JStr ''choice_3''),
                       (''text'', JStr ''Choice 3 - implementation pending'')]]),
             (''metadata'', JDict [(''story_id'', JStr ''story-9'')])]"
  have ok: "fst (generate_choices ?request ([(''story-9'', [])] :: story_store)) = Inr ?r"
    by (simp add: generate_choices_def)
  have ids: "map choice_id (choices_of ?r) =
      [Some (JStr ''choice_1''), Some (JStr ''choice_2''), Some (JStr ''choice_3'')]"
    by (simp add: choices_of_def choice_id_def)
  have "distinct (map choice_id (choices_of ?r))"
    using generate_choices_ids_distinct [OF ok] by (rule conjunct1)
  then have "distinct [Some (JStr ''choice_1''), Some (JStr ''choice_2''), Some (JStr ''choice_3'')]"
    by (simp only: ids)
  with ok show ?thesis
    by (rule conjI)
qed

section \<open>Story state\<close>

text \<open>
  C9. For every \<^verbatim>\<open>story_id\<close>, \<^verbatim>\<open>get_story_state\<close> succeeds, returns that same
  \<^verbatim>\<open>story_id\<close> with the empty mapping as \<^verbatim>\<open>state\<close>, and leaves the system state as it
  was; its response does not depend on the state it is run in. The same holds of every
  route: no call, and no sequence of calls, changes the system state, and no response
  depends on it.
\<close>

theorem get_story_state_stub:
  "get_story_state sid s =
     (Inr [(''story_id'', JStr sid),
           (''state'', JDict []),
           (''message'', JStr ''Story state endpoint - implementation pending'')], s)
   \<and> fst (get_story_state sid s) = fst (get_story_state sid t)
   \<and> snd (app c s) = s \<and> fst (app c s) = fst (app c t)
   \<and> snd (serve calls s) = s"
proof -
  have "get_story_state sid s =
     (Inr [(''story_id'', JStr sid),
           (''state'', JDict []),
           (''message'', JStr ''Story state endpoint - implementation pending'')], s)"
    by (simp add: get_story_state_def)
  moreover have "fst (get_story_state sid s) = fst (get_story_state sid t)"
    by (simp add: get_story_state_def)
  moreover have "snd (app c s) = s"
    by (rule app_state)
  moreover have "fst (app c s) = fst (app c t)"
    by (rule app_response)
  moreover have "snd (serve calls s) = s"
    by (rule serve_state)
  ultimately show ?thesis
    by blast
qed

text \<open>
  C2, as the specification has it: for a story that has never been created,
  \<^verbatim>\<open>get_story_state\<close> fails with \<open>NotFound\<close>. On the empty store, where no story exists,
  the handler returns a successful response with the empty state.
\<close>

theorem get_story_state_not_found_counterexample:
  "map_of ([] :: story_store) ''story-7'' = None
   \<and> fst (get_story_state ''story-7'' ([] :: story_store)) =
       Inr [(''story_id'', JStr ''story-7''),
            (''state'', JDict []),
            (''message'', JStr ''Story state endpoint - implementation pending'')]
   \<and> fst (get_story_state ''story-7'' ([] :: story_store)) \<noteq> Inl NotFound"
  by (simp add: get_story_state_def)

text \<open>
  C2, amended. For every \<^verbatim>\<open>story_id\<close> that has never been created, \<^verbatim>\<open>get_story_state\<close>
  is pure (it leaves the store as it was) and does not fail with \<open>NotFound\<close>: it returns
  a successful response whose \<^verbatim>\<open>state\<close> is the empty mapping.
\<close>

theorem get_story_state_unknown_story:
  assumes "map_of (st :: story_store) sid = None"
  shows "(\<exists>r. fst (get_story_state sid st) = Inr r \<and> map_of r ''state'' = Some (JDict []))
    \<and> fst (get_story_state sid st) \<noteq> Inl NotFound
    \<and> snd (get_story_state sid st) = st"
  using assms by (simp add: get_story_state_def)

theorem get_story_state_unknown_story_witness:
  "map_of ([(''story-3'', [(''scene'', JInt 2)])] :: story_store) ''story-7'' = None
   \<and> fst (get_story_state ''story-7'' ([(''story-3'', [(''scene'', JInt 2)])] :: story_store))
       \<noteq> Inl NotFound
   \<and> snd (get_story_state ''story-7'' ([(''story-3'', [(''scene'', JInt 2)])] :: story_store))
       = [(''story-3'', [(''scene'', JInt 2)])]"
proof -
  have unknown: "map_of ([(''story-3'', [(''scene'', JInt 2)])] :: story_store) ''story-7'' = None"
    by simp
  from get_story_state_unknown_story [OF unknown] unknown show ?thesis
    by blast
qed

section \<open>Determinism\<close>

text \<open>
  C10. Every handler is a function of its request alone: run in any two system states
  it gives the same response. Hence the response to a call does not depend on the
  calls served before it, whatever they were and whatever state they started from, and
  a sequence of calls gets the same responses from any starting state.
\<close>

theorem handlers_depend_on_request_only:
  "fst (health_check s) = fst (health_check t)
   \<and> fst (generate_scene scene_request s) = fst (generate_scene scene_request t)
   \<and> fst (generate_choices choices_request s) = fst (generate_choices choices_request t)
   \<and> fst (get_story_state sid s) = fst (get_story_state sid t)
   \<and> fst (app c (snd (serve earlier s))) = fst (app c (snd (serve earlier' t)))
   \<and> fst (serve calls s) = fst (serve calls t)"
proof -
  have handlers:
    "fst (health_check s) = fst (health_check t)"
    "fst (generate_scene scene_request s) = fst (generate_scene scene_request t)"
    "fst (generate_choices choices_request s) = fst (generate_choices choices_request t)"
    "fst (get_story_state sid s) = fst (get_story_state sid t)"
    by (simp_all add: health_check_def generate_scene_def generate_choices_def
        get_story_state_def)
  have after: "fst (app c (snd (serve earlier s))) = fst (app c (snd (serve earlier' t)))"
    by (rule app_response)
  have "fst (serve calls s) = map (\<lambda>c. fst (app c t)) calls"
    by (rule serve_responses)
  also have "\<dots> = fst (serve calls t)"
    by (rule serve_responses [symmetric])
  finally have sequence: "fst (serve calls s) = fst (serve calls t)" .
  from handlers after sequence show ?thesis
    by blast
qed

end
